theory Spec2Isabelle
  imports Complex_Main "HOL-Library.Word"
begin

unbundle bit_operations_syntax

section \<open>Data model of \<open>camera/core/detection.py\<close>\<close>

text \<open>
  An image is a grid of rows (a numpy array of shape \<open>(H, W)\<close> or \<open>(H, W, 3)\<close>); a colour
  pixel is a triple of 8-bit channels in the order B, G, R (or H, S, V after conversion);
  a bounding box is the tuple \<open>(x, y, width, height)\<close>.
\<close>

type_synonym 'a img = "'a list list"
type_synonym pixel = "8 word \<times> 8 word \<times> 8 word"
type_synonym frame = "pixel img"
type_synonym rect = "int \<times> int \<times> int \<times> int"
type_synonym colour = "nat \<times> nat \<times> nat"

text \<open>
  The failures the module can end in: the library's error (\<open>cv2.error\<close>) on a
  zero-size frame and on an argument that is not of the kind a function takes, and
  Python's own \<open>ZeroDivisionError\<close> of the true division \<open>w / h\<close>.
\<close>

datatype error = InvalidFrame | BadArgument | ZeroDivisionError

text \<open>
  What lies outside the process and is changed by a call: the log file that
  \<open>logging.info\<close> appends to, the files of the working directory by name, and the names
  \<open>cv2.imwrite\<close> was called with, in the order of the calls.
\<close>

datatype dumped = Colour frame | Gray "8 word img"

record world =
  logfile :: "string list"
  disk :: "string \<rightharpoonup> dumped"
  written :: "string list"

definition logging_info :: "string \<Rightarrow> world \<Rightarrow> world" where
  "logging_info line w = w\<lparr>logfile := logfile w @ [line]\<rparr>"

definition cv2_imwrite :: "string \<Rightarrow> dumped \<Rightarrow> world \<Rightarrow> world" where
  "cv2_imwrite name im w =
     w\<lparr>disk := (disk w)(name \<mapsto> im), written := written w @ [name]\<rparr>"

subsection \<open>Defaults (bright green)\<close>

definition MIN_DETECT_HSV :: pixel where
  "MIN_DETECT_HSV = (50, 100, 140)"

definition MAX_DETECT_HSV :: pixel where
  "MAX_DETECT_HSV = (85, 255, 255)"

definition MIN_DETECT_CONTOUR :: int where
  "MIN_DETECT_CONTOUR = 100"

definition MAX_DETECT_CONTOUR :: int where
  "MAX_DETECT_CONTOUR = 400"

subsection \<open>Python's formatting of integers and tuples\<close>

definition digit_chars :: string where
  "digit_chars = ''0123456789''"

fun str_nat :: "nat \<Rightarrow> string" where
  "str_nat n =
     (if n < 10 then [digit_chars ! n]
      else str_nat (n div 10) @ [digit_chars ! (n mod 10)])"

declare str_nat.simps [simp del]

definition str_int :: "int \<Rightarrow> string" where
  "str_int i = (if i < 0 then ''-'' @ str_nat (nat (- i)) else str_nat (nat i))"

text \<open>\<open>str\<close> of a 4-tuple of integers, as the f-string \<open>{box}\<close> prints it.\<close>

definition str_box :: "rect \<Rightarrow> string" where
  "str_box box =
     (case box of (x, y, w, h) \<Rightarrow>
        ''('' @ str_int x @ '', '' @ str_int y @ '', '' @ str_int w @ '', '' @ str_int h @ '')'')"

section \<open>\<open>log_detected\<close>\<close>

text \<open>
  The loop \<open>for i, box in enumerate(boxes): logging.info(f'{i+1}, {box}')\<close>, with the
  counter \<open>i\<close> of \<open>enumerate\<close> carried along.
\<close>

fun log_boxes :: "int \<Rightarrow> rect list \<Rightarrow> world \<Rightarrow> world" where
  "log_boxes i [] w = w"
| "log_boxes i (box # boxes) w =
     log_boxes (i + 1) boxes (logging_info (str_int (i + 1) @ '', '' @ str_box box) w)"

definition log_detected :: "world \<Rightarrow> rect list \<Rightarrow> unit \<times> world" where
  "log_detected w boxes =
     (let w = log_boxes 0 boxes w;
          w = logging_info (''Found '' @ str_int (int (length boxes)) @ '' blobs in frame.'') w
      in ((), w))"

section \<open>Annotation\<close>

text \<open>
  The two drawing primitives of the library, with the arguments the module passes:
  \<open>cv2.rectangle(img, rec, color, thickness)\<close> and
  \<open>cv2.putText(img, text, org, fontFace, fontScale, color[, thickness])\<close>. How a call
  changes the pixels is the library's business: the functions below take the rasteriser
  as their first argument.
\<close>

datatype font = FONT_HERSHEY_SIMPLEX

datatype cv2_draw =
  Rectangle rect colour int
| PutText string "int \<times> int" font rat colour "int option"

type_synonym rasteriser = "cv2_draw \<Rightarrow> frame \<Rightarrow> frame"

text \<open>\<open>frame.shape\<close>: the height and the width.\<close>

definition shape :: "'a img \<Rightarrow> nat \<times> nat" where
  "shape f = (length f, (case f of [] \<Rightarrow> 0 | row # _ \<Rightarrow> length row))"

text \<open>The wall clock read by \<open>datetime.datetime.now()\<close>, and \<open>strftime("%y-%m-%d %H:%M:%S")\<close>.\<close>

record datetime =
  dt_year :: nat
  dt_month :: nat
  dt_day :: nat
  dt_hour :: nat
  dt_minute :: nat
  dt_second :: nat

definition pad2 :: "nat \<Rightarrow> string" where
  "pad2 n = [digit_chars ! (n div 10 mod 10), digit_chars ! (n mod 10)]"

definition strftime :: "datetime \<Rightarrow> string" where
  "strftime t =
     pad2 (dt_year t mod 100) @ ''-'' @ pad2 (dt_month t) @ ''-'' @ pad2 (dt_day t) @ '' '' @
     pad2 (dt_hour t) @ '':'' @ pad2 (dt_minute t) @ '':'' @ pad2 (dt_second t)"

text \<open>Python's \<open>int(x)\<close> on a finite number: truncation toward zero.\<close>

definition py_int :: "rat \<Rightarrow> int" where
  "py_int q = (if 0 \<le> q then \<lfloor>q\<rfloor> else \<lceil>q\<rceil>)"

definition draw_bbox :: "rasteriser \<Rightarrow> frame \<Rightarrow> int \<Rightarrow> rect \<Rightarrow> frame" where
  "draw_bbox cv2 frame player rect =
     (case rect of (x, y, w, h) \<Rightarrow>
        let frame = cv2 (Rectangle (x, y, w, h) (0, 255, 0) 2) frame;
            frame = cv2 (PutText (''Player'' @ str_int player) (x, y)
                           FONT_HERSHEY_SIMPLEX (1 / 2) (0, 255, 0) None) frame
        in frame)"

text \<open>
  The loop \<open>for i, box in enumerate(boxes): frame = draw_bbox(frame, i + 1,
  tuple([int(x) for x in box]))\<close>. The caller's boxes may hold any numbers.
\<close>

fun draw_boxes :: "rasteriser \<Rightarrow> int \<Rightarrow> (rat \<times> rat \<times> rat \<times> rat) list \<Rightarrow> frame \<Rightarrow> frame" where
  "draw_boxes cv2 i [] frame = frame"
| "draw_boxes cv2 i (box # boxes) frame =
     draw_boxes cv2 (i + 1) boxes
       (draw_bbox cv2 frame (i + 1)
          (case box of (a, b, c, d) \<Rightarrow> (py_int a, py_int b, py_int c, py_int d)))"

definition draw_annotations ::
  "rasteriser \<Rightarrow> datetime \<Rightarrow> frame \<Rightarrow> (rat \<times> rat \<times> rat \<times> rat) list \<Rightarrow> frame" where
  "draw_annotations cv2 now frame boxes =
     (let timestamp = now;
          frame = cv2 (PutText (strftime timestamp) (10, int (fst (shape frame)) - 10)
                         FONT_HERSHEY_SIMPLEX (1 / 2) (255, 255, 255) (Some 1)) frame
      in draw_boxes cv2 0 boxes frame)"

text \<open>A box of integers, as the detectors return it, seen as a box of numbers.\<close>

definition int_box :: "rect \<Rightarrow> rat \<times> rat \<times> rat \<times> rat" where
  "int_box box = (case box of (x, y, w, h) \<Rightarrow> (of_int x, of_int y, of_int w, of_int h))"

section \<open>Blob detector\<close>

text \<open>
  The fields of \<open>cv2.SimpleBlobDetector_Params\<close> that the module sets; the others stay
  as the library's constructor leaves them (the extension part of the record). The
  thresholds are C \<open>float\<close> fields, of a type \<open>'f\<close> of the library's; the flags are
  booleans and the blob colour is a byte.
\<close>

record 'f blob_params =
  filterByCircularity :: bool
  minCircularity :: 'f
  filterByArea :: bool
  minArea :: 'f
  maxArea :: 'f
  filterByColor :: bool
  blobColor :: "8 word"

text \<open>
  The Python float that the literal \<open>0.9\<close> denotes: the double nearest to nine tenths,
  which is a little above it.
\<close>

definition py_float_0_9 :: rat where
  "py_float_0_9 = 8106479329266893 / 9007199254740992"

definition cv2_bitwise_not :: "frame \<Rightarrow> frame" where
  "cv2_bitwise_not src = map (map (\<lambda>(b, g, r). (NOT b, NOT g, NOT r))) src"

text \<open>
  What \<open>detector.detect\<close> returns: keypoint objects, each with the centre and the
  diameter of a blob.
\<close>

record keypoint =
  pt :: "rat \<times> rat"
  size :: rat

text \<open>
  \<open>cv2.boundingRect(array)\<close> takes an array of points. The values the module can hand
  to it are such an array or a keypoint object; the binding converts its argument to an
  array first and raises (\<open>cv2.error\<close>, bad argument: overload resolution failed) when
  that is not possible, as for a \<open>cv2.KeyPoint\<close>. The rectangle of an array of points is
  the library's, the first argument.
\<close>

datatype py_object = Ndarray "(int \<times> int) list" | KeyPoint keypoint

definition cv2_boundingRect :: "((int \<times> int) list \<Rightarrow> rect) \<Rightarrow> py_object \<Rightarrow> error + rect" where
  "cv2_boundingRect rect_of_points array =
     (case array of
        Ndarray pts \<Rightarrow> Inr (rect_of_points pts)
      | KeyPoint k \<Rightarrow> Inl BadArgument)"

text \<open>
  The comprehension \<open>[ cv2.boundingRect(blob) for blob in blobs ]\<close>: the first call that
  raises ends it.
\<close>

fun blob_boxes :: "((int \<times> int) list \<Rightarrow> rect) \<Rightarrow> keypoint list \<Rightarrow> error + rect list" where
  "blob_boxes rect_of_points [] = Inr []"
| "blob_boxes rect_of_points (blob # blobs) =
     (case cv2_boundingRect rect_of_points (KeyPoint blob) of
        Inl e \<Rightarrow> Inl e
      | Inr box \<Rightarrow>
          (case blob_boxes rect_of_points blobs of
             Inl e \<Rightarrow> Inl e
           | Inr boxes \<Rightarrow> Inr (box # boxes)))"

text \<open>
  The library enters as parameters: the parameter object its constructor returns, the
  conversion \<open>to_float\<close> of a Python number to the C \<open>float\<close> that a field holds,
  \<open>SimpleBlobDetector_create(params).detect\<close>, and the rectangle of an array of points.
  The world is passed through so that the absence of effects can be stated.
\<close>

definition detect_blobs ::
  "('f, 'z) blob_params_scheme \<Rightarrow> (rat \<Rightarrow> 'f) \<Rightarrow>
   (('f, 'z) blob_params_scheme \<Rightarrow> frame \<Rightarrow> keypoint list) \<Rightarrow> ((int \<times> int) list \<Rightarrow> rect) \<Rightarrow>
   world \<Rightarrow> frame \<Rightarrow> int \<Rightarrow> int \<Rightarrow> (error + rect list) \<times> world" where
  "detect_blobs SimpleBlobDetector_Params to_float detect rect_of_points w frame min_area max_area =
     (let inv_frame = cv2_bitwise_not frame;
          params = SimpleBlobDetector_Params;
          params = params\<lparr>filterByCircularity := True\<rparr>;
          params = params\<lparr>minCircularity := to_float py_float_0_9\<rparr>;
          params = params\<lparr>filterByArea := True\<rparr>;
          params = params\<lparr>minArea := to_float (of_int min_area)\<rparr>;
          params = params\<lparr>maxArea := to_float (of_int max_area)\<rparr>;
          params = params\<lparr>filterByColor := True\<rparr>;
          params = params\<lparr>blobColor := 0\<rparr>;
          blobs = detect params inv_frame
      in (blob_boxes rect_of_points blobs, w))"

section \<open>Colour detector\<close>

text \<open>
  The library functions whose result the module only passes on: the two per-pixel colour
  conversions, the contour extraction (called with \<open>RETR_TREE\<close> and
  \<open>CHAIN_APPROX_SIMPLE\<close>), the area of a contour and its bounding rectangle.
\<close>

record 'c cv2 =
  COLOR_BGR2HSV :: "pixel \<Rightarrow> pixel"
  COLOR_BGR2GRAY :: "pixel \<Rightarrow> 8 word"
  findContours :: "8 word img \<Rightarrow> 'c list"
  contourArea :: "'c \<Rightarrow> rat"
  boundingRect :: "'c \<Rightarrow> rect"

text \<open>\<open>cv2.cvtColor\<close> converts pixel by pixel and refuses an image with no pixel.\<close>

definition cv2_cvtColor :: "('a \<Rightarrow> 'b) \<Rightarrow> 'a img \<Rightarrow> error + 'b img" where
  "cv2_cvtColor code src =
     (if concat src = [] then Inl InvalidFrame else Inr (map (map code) src))"

text \<open>\<open>cv2.inRange\<close>: 255 where every channel lies within the bounds, both inclusive.\<close>

definition in_bounds :: "pixel \<Rightarrow> pixel \<Rightarrow> pixel \<Rightarrow> bool" where
  "in_bounds p lowerb upperb =
     (case (p, lowerb, upperb) of ((h, s, v), (h0, s0, v0), (h1, s1, v1)) \<Rightarrow>
        h0 \<le> h \<and> h \<le> h1 \<and> s0 \<le> s \<and> s \<le> s1 \<and> v0 \<le> v \<and> v \<le> v1)"

definition cv2_inRange :: "frame \<Rightarrow> pixel \<Rightarrow> pixel \<Rightarrow> 8 word img" where
  "cv2_inRange src lowerb upperb =
     map (map (\<lambda>p. if in_bounds p lowerb upperb then 255 else 0)) src"

definition np_ones :: "nat \<Rightarrow> nat \<Rightarrow> 8 word img" where
  "np_ones h w = replicate h (replicate w 1)"

text \<open>
  \<open>cv2.dilate(src, kernel)\<close>, one iteration, anchor at the kernel's centre: a pixel
  becomes the maximum of the pixels of the image that the non-zero kernel entries cover
  (positions beyond the border do not count).
\<close>

definition covered :: "8 word img \<Rightarrow> 8 word img \<Rightarrow> nat \<Rightarrow> nat \<Rightarrow> 8 word list" where
  "covered src kern y x =
     concat (map (\<lambda>i. concat (map (\<lambda>j.
        (let yy = int y + int i - int (length kern div 2);
             xx = int x + int j - int (length (kern ! i) div 2)
         in if kern ! i ! j \<noteq> 0 \<and> 0 \<le> yy \<and> yy < int (length src) \<and>
               0 \<le> xx \<and> xx < int (length (src ! nat yy))
            then [src ! nat yy ! nat xx] else []))
        [0..<length (kern ! i)])) [0..<length kern])"

definition cv2_dilate :: "8 word img \<Rightarrow> 8 word img \<Rightarrow> 8 word img" where
  "cv2_dilate src kern =
     map (\<lambda>y. map (\<lambda>x. fold max (covered src kern y x) 0) [0..<length (src ! y)])
       [0..<length src]"

text \<open>
  \<open>cv2.bitwise_and(src1, src2, mask = mask)\<close> into a fresh destination: the conjunction
  where the mask is non-zero, black elsewhere.
\<close>

definition cv2_bitwise_and :: "frame \<Rightarrow> frame \<Rightarrow> 8 word img \<Rightarrow> frame" where
  "cv2_bitwise_and src1 src2 msk =
     map2 (\<lambda>(row1, row2) mrow.
        map2 (\<lambda>((b1, g1, r1), (b2, g2, r2)) m.
           if m \<noteq> 0 then (b1 AND b2, g1 AND g2, r1 AND r2) else (0, 0, 0))
          (zip row1 row2) mrow)
       (zip src1 src2) msk"

text \<open>Python's true division of two integers.\<close>

definition py_truediv :: "int \<Rightarrow> int \<Rightarrow> error + rat" where
  "py_truediv a b = (if b = 0 then Inl ZeroDivisionError else Inr (of_int a / of_int b))"

text \<open>
  The condition \<open>w / h >= 0.8 or w / h <= 1.2\<close>: the right operand of \<open>or\<close> is evaluated
  only when the left one is false.
\<close>

definition aspect_ok :: "int \<Rightarrow> int \<Rightarrow> error + bool" where
  "aspect_ok w h =
     (case py_truediv w h of
        Inl e \<Rightarrow> Inl e
      | Inr r \<Rightarrow>
          if 8 / 10 \<le> r then Inr True
          else (case py_truediv w h of
                  Inl e \<Rightarrow> Inl e
                | Inr r' \<Rightarrow> Inr (r' \<le> 12 / 10)))"

text \<open>The loop over the contours, with the list \<open>bboxes\<close> it appends to.\<close>

fun select_boxes :: "'c cv2 \<Rightarrow> int \<Rightarrow> int \<Rightarrow> 'c list \<Rightarrow> rect list \<Rightarrow> error + rect list" where
  "select_boxes cv min_contour max_contour [] bboxes = Inr bboxes"
| "select_boxes cv min_contour max_contour (contour # contours) bboxes =
     (let box = contourArea cv contour
      in if of_int min_contour \<le> box \<and> box \<le> of_int max_contour
         then (case boundingRect cv contour of (x, y, w, h) \<Rightarrow>
                 (case aspect_ok w h of
                    Inl e \<Rightarrow> Inl e
                  | Inr ok \<Rightarrow>
                      select_boxes cv min_contour max_contour contours
                        (if ok then bboxes @ [(x, y, w, h)] else bboxes)))
         else select_boxes cv min_contour max_contour contours bboxes)"

definition detect_colour ::
  "'c cv2 \<Rightarrow> world \<Rightarrow> frame \<Rightarrow> pixel \<Rightarrow> pixel \<Rightarrow> int \<Rightarrow> int \<Rightarrow> bool \<Rightarrow>
   (error + rect list) \<times> world" where
  "detect_colour cv w frame min_hsv max_hsv min_contour max_contour dump =
     (case cv2_cvtColor (COLOR_BGR2HSV cv) frame of
        Inl e \<Rightarrow> (Inl e, w)
      | Inr hsv_frame \<Rightarrow>
          let green_mask = cv2_inRange hsv_frame min_hsv max_hsv;
              w = (if dump
                   then cv2_imwrite ''green_mask.jpg'' (Gray green_mask)
                          (cv2_imwrite ''hsv_frame.jpg'' (Colour hsv_frame) w)
                   else w);
              kernel = np_ones 5 5;
              green_mask = cv2_dilate green_mask kernel;
              w = (if dump then cv2_imwrite ''green_mask_dilated.jpg'' (Gray green_mask) w
                   else w);
              res = cv2_bitwise_and frame frame green_mask;
              w = (if dump then cv2_imwrite ''img_masked.jpg'' (Colour res) w else w)
          in (case cv2_cvtColor (COLOR_BGR2GRAY cv) res of
                Inl e \<Rightarrow> (Inl e, w)
              | Inr res \<Rightarrow>
                  let contours = findContours cv res
                  in (case select_boxes cv min_contour max_contour contours [] of
                        Inl e \<Rightarrow> (Inl e, w)
                      | Inr bboxes \<Rightarrow> (Inr bboxes, snd (log_detected w bboxes)))))"

subsection \<open>The intermediate images of \<open>detect_colour\<close>\<close>

text \<open>
  The images that \<open>detect_colour\<close> computes on a frame that has pixels, under the names
  the source gives them: \<open>hsv_frame\<close>, \<open>green_mask\<close> before and after the dilation, and
  \<open>res\<close> before and after the conversion to grey.
\<close>

definition hsv_frame :: "'c cv2 \<Rightarrow> frame \<Rightarrow> frame" where
  "hsv_frame cv frame = map (map (COLOR_BGR2HSV cv)) frame"

definition green_mask :: "'c cv2 \<Rightarrow> frame \<Rightarrow> pixel \<Rightarrow> pixel \<Rightarrow> 8 word img" where
  "green_mask cv frame min_hsv max_hsv = cv2_inRange (hsv_frame cv frame) min_hsv max_hsv"

definition green_mask_dilated :: "'c cv2 \<Rightarrow> frame \<Rightarrow> pixel \<Rightarrow> pixel \<Rightarrow> 8 word img" where
  "green_mask_dilated cv frame min_hsv max_hsv =
     cv2_dilate (green_mask cv frame min_hsv max_hsv) (np_ones 5 5)"

definition img_masked :: "'c cv2 \<Rightarrow> frame \<Rightarrow> pixel \<Rightarrow> pixel \<Rightarrow> frame" where
  "img_masked cv frame min_hsv max_hsv =
     cv2_bitwise_and frame frame (green_mask_dilated cv frame min_hsv max_hsv)"

definition res_gray :: "'c cv2 \<Rightarrow> frame \<Rightarrow> pixel \<Rightarrow> pixel \<Rightarrow> 8 word img" where
  "res_gray cv frame min_hsv max_hsv =
     map (map (COLOR_BGR2GRAY cv)) (img_masked cv frame min_hsv max_hsv)"

text \<open>The four writes of a call with \<open>dump\<close> set, in the order of the source.\<close>

definition dump_files :: "'c cv2 \<Rightarrow> frame \<Rightarrow> pixel \<Rightarrow> pixel \<Rightarrow> world \<Rightarrow> world" where
  "dump_files cv frame lo hi w =
     cv2_imwrite ''img_masked.jpg'' (Colour (img_masked cv frame lo hi))
       (cv2_imwrite ''green_mask_dilated.jpg'' (Gray (green_mask_dilated cv frame lo hi))
          (cv2_imwrite ''green_mask.jpg'' (Gray (green_mask cv frame lo hi))
             (cv2_imwrite ''hsv_frame.jpg'' (Colour (hsv_frame cv frame)) w)))"

subsection \<open>The bounding rectangle of a contour\<close>

text \<open>
  Modelled from the spec: \<open>cv2.boundingRect\<close> is a function of the image library, whose
  code is not part of the repository. The spec calls its result "the minimal axis-aligned
  rectangle enclosing a detected region" (glossary, and step 6 of section 4.1). For a
  contour given by its pixel positions that is the rectangle from the least to the
  greatest coordinate, both included; for no point at all it is the empty rectangle.
\<close>

definition boundingRect_points :: "(int \<times> int) list \<Rightarrow> rect" where
  "boundingRect_points pts =
     (case pts of
        [] \<Rightarrow> (0, 0, 0, 0)
      | p # ps \<Rightarrow>
          let x0 = fold min (map fst ps) (fst p);
              x1 = fold max (map fst ps) (fst p);
              y0 = fold min (map snd ps) (snd p);
              y1 = fold max (map snd ps) (snd p)
          in (x0, y0, x1 - x0 + 1, y1 - y0 + 1))"

subsection \<open>A small library and world for worked examples\<close>

text \<open>
  A stand-in for the library on which the theorems are run: colours are left as they are,
  the grey value is the green channel, an image with a lit pixel has two contours (a
  square and a triangle), and the area of a contour is 150 for four points and 5000
  otherwise.
\<close>

definition toy_cv :: "(int \<times> int) list cv2" where
  "toy_cv =
     \<lparr>COLOR_BGR2HSV = (\<lambda>p. p),
      COLOR_BGR2GRAY = (\<lambda>(b, g, r). g),
      findContours = (\<lambda>im. if list_all (list_all (\<lambda>v. v = 0)) im then []
                             else [[(0, 0), (1, 0), (1, 1), (0, 1)], [(0, 0), (3, 0), (3, 3)]]),
      contourArea = (\<lambda>c. if length c = 4 then 150 else 5000),
      boundingRect = boundingRect_points\<rparr>"

definition empty_world :: world where
  "empty_world = \<lparr>logfile = [], disk = Map.empty, written = []\<rparr>"

text \<open>
  A stand-in for the blob detector: default parameters with every filter off, floats
  kept as the numbers they are, and one keypoint reported when the image handed over
  has a black pixel.
\<close>

definition toy_params :: "rat blob_params" where
  "toy_params =
     \<lparr>filterByCircularity = False, minCircularity = 0, filterByArea = False, minArea = 0,
      maxArea = 0, filterByColor = False, blobColor = 0\<rparr>"

definition toy_detect :: "rat blob_params \<Rightarrow> frame \<Rightarrow> keypoint list" where
  "toy_detect params im =
     (if list_ex (list_ex (\<lambda>p. p = (0, 0, 0))) im then [\<lparr>pt = (0, 0), size = 1\<rparr>] else [])"

section \<open>Properties of the logger\<close>

lemma log_boxes_eq:
  "log_boxes (int n) boxes w =
     w\<lparr>logfile := logfile w @
        map (\<lambda>(k, box). str_int (int k + 1) @ '', '' @ str_box box) (enumerate n boxes)\<rparr>"
proof (induction boxes arbitrary: n w)
  case Nil
  show ?case by simp
next
  case (Cons box boxes)
  have "log_boxes (int n) (box # boxes) w =
        log_boxes (int (Suc n)) boxes (logging_info (str_int (int n + 1) @ '', '' @ str_box box) w)"
    by (simp add: add.commute)
  also have "\<dots> = w\<lparr>logfile := logfile w @
        map (\<lambda>(k, box). str_int (int k + 1) @ '', '' @ str_box box) (enumerate n (box # boxes))\<rparr>"
    unfolding Cons.IH by (simp add: logging_info_def)
  finally show ?case .
qed

lemma str_nat_digit: "n < 10 \<Longrightarrow> str_nat n = [digit_chars ! n]"
  by (simp add: str_nat.simps)

lemma str_int_digits:
  "str_int 0 = ''0''" "str_int 1 = ''1''" "str_int 2 = ''2''" "str_int 3 = ''3''"
  "str_int 4 = ''4''"
  by (simp_all add: str_int_def str_nat_digit digit_chars_def)

lemma log_detected_eq:
  "log_detected w boxes =
     ((), w\<lparr>logfile := logfile w @
            map (\<lambda>(k, box). str_int (int k + 1) @ '', '' @ str_box box) (enumerate 0 boxes) @
            [''Found '' @ str_int (int (length boxes)) @ '' blobs in frame.'']\<rparr>)"
  using log_boxes_eq [of 0 boxes w] by (simp add: log_detected_def logging_info_def)

text \<open>
  C2. \<open>log_detected\<close> returns nothing and appends to the log, for the boxes in the order of
  the list, the line \<open>"{1-based index}, {box}"\<close> of each box and then the one line
  \<open>"Found {count} blobs in frame."\<close> with the length of the list: one line per box and one
  more. On the empty list the summary line alone is written; on \<open>[(1, 2, 3, 4)]\<close> the lines
  are \<open>"1, (1, 2, 3, 4)"\<close> and \<open>"Found 1 blobs in frame."\<close>. Nothing else of the world
  changes. The list is an argument that the function only reads, so no box is dropped
  and none is changed.
\<close>

theorem log_detected_lines:
  "log_detected w boxes =
     ((), w\<lparr>logfile := logfile w @
            map (\<lambda>(k, box). str_int (int k + 1) @ '', '' @ str_box box) (enumerate 0 boxes) @
            [''Found '' @ str_int (int (length boxes)) @ '' blobs in frame.'']\<rparr>)
   \<and> length (logfile (snd (log_detected w boxes))) = length (logfile w) + length boxes + 1
   \<and> logfile (snd (log_detected w [])) = logfile w @ [''Found 0 blobs in frame.'']
   \<and> logfile (snd (log_detected w [(1, 2, 3, 4)])) =
       logfile w @ [''1, (1, 2, 3, 4)'', ''Found 1 blobs in frame.'']
   \<and> disk (snd (log_detected w boxes)) = disk w
   \<and> written (snd (log_detected w boxes)) = written w"
  by (simp add: log_detected_eq str_int_digits str_box_def)

section \<open>Properties of the annotator\<close>

lemma draw_boxes_calls:
  "draw_boxes cv2 (int n) boxes frame =
     foldl (\<lambda>f c. cv2 c f) frame
       (concat (map (\<lambda>(k, (a, b, c, d)).
          [Rectangle (py_int a, py_int b, py_int c, py_int d) (0, 255, 0) 2,
           PutText (''Player'' @ str_int (int k + 1)) (py_int a, py_int b)
             FONT_HERSHEY_SIMPLEX (1 / 2) (0, 255, 0) None]) (enumerate n boxes)))"
proof (induction boxes arbitrary: n frame)
  case Nil
  show ?case by simp
next
  case (Cons box boxes)
  obtain a b c d where box: "box = (a, b, c, d)"
    by (cases box) auto
  have "draw_boxes cv2 (int n) (box # boxes) frame =
        draw_boxes cv2 (int (Suc n)) boxes
          (draw_bbox cv2 frame (int n + 1) (py_int a, py_int b, py_int c, py_int d))"
    by (simp add: box add.commute)
  then show ?case
    unfolding Cons.IH by (simp add: box draw_bbox_def)
qed

lemma draw_annotations_calls:
  "draw_annotations cv2 now frame boxes =
     foldl (\<lambda>f c. cv2 c f) frame
       (PutText (strftime now) (10, int (length frame) - 10)
          FONT_HERSHEY_SIMPLEX (1 / 2) (255, 255, 255) (Some 1) #
        concat (map (\<lambda>(k, (a, b, c, d)).
          [Rectangle (py_int a, py_int b, py_int c, py_int d) (0, 255, 0) 2,
           PutText (''Player'' @ str_int (int k + 1)) (py_int a, py_int b)
             FONT_HERSHEY_SIMPLEX (1 / 2) (0, 255, 0) None]) (enumerate 0 boxes)))"
  using draw_boxes_calls [of cv2 0 boxes] by (simp add: draw_annotations_def shape_def)

lemma py_int_of_int: "py_int (of_int n) = n"
  by (simp add: py_int_def)

lemma enumerate_map: "enumerate n (map f xs) = map (\<lambda>(k, x). (k, f x)) (enumerate n xs)"
  by (induction xs arbitrary: n) auto

text \<open>
  C3. For a list of N integer boxes, \<open>draw_annotations\<close> makes, after the timestamp, exactly
  these calls of the drawing primitives and in this order: for the box \<open>(x, y, w, h)\<close> at
  position k (counted from 0) a rectangle \<open>(x, y, w, h)\<close> in green \<open>(0, 255, 0)\<close> with
  thickness 2, then the text \<open>"Player{k+1}"\<close> at \<open>(x, y)\<close> in green. The labels drawn are
  \<open>"Player1"\<close> to \<open>"PlayerN"\<close> in the order of the list; they depend on the positions only,
  not on what the boxes hold, and are computed afresh by every call.
\<close>

theorem draw_annotations_labels:
  "\<exists>calls.
     (\<forall>cv2 frame. draw_annotations cv2 now frame (map int_box boxes) =
        foldl (\<lambda>f c. cv2 c f) frame
          (PutText (strftime now) (10, int (length frame) - 10)
             FONT_HERSHEY_SIMPLEX (1 / 2) (255, 255, 255) (Some 1) # calls))
   \<and> calls = concat (map (\<lambda>(k, (x, y, w, h)).
          [Rectangle (x, y, w, h) (0, 255, 0) 2,
           PutText (''Player'' @ str_int (int k + 1)) (x, y)
             FONT_HERSHEY_SIMPLEX (1 / 2) (0, 255, 0) None]) (enumerate 0 boxes))
   \<and> [t. PutText t org face scale col thick \<leftarrow> calls] =
       map (\<lambda>k. ''Player'' @ str_int (int k + 1)) [0..<length boxes]
   \<and> length calls = 2 * length boxes"
proof -
  let ?per = "\<lambda>(k, (x, y, w, h)).
          [Rectangle (x, y, w, h) (0, 255, 0) 2,
           PutText (''Player'' @ str_int (int k + 1)) (x, y)
             FONT_HERSHEY_SIMPLEX (1 / 2) (0, 255, 0) None]"
  have labels: "[t. PutText t org face scale col thick \<leftarrow> concat (map ?per (enumerate n bs))] =
       map (\<lambda>k. ''Player'' @ str_int (int k + 1)) [n..<n + length bs]" for n and bs :: "rect list"
  proof (induction bs arbitrary: n)
    case Nil
    show ?case by simp
  next
    case (Cons b bs)
    show ?case
      using Cons.IH [of "Suc n"] by (cases b) (simp add: upt_conv_Cons del: upt_Suc)
  qed
  have len: "length (concat (map ?per (enumerate n bs))) = 2 * length bs" for n and bs :: "rect list"
    by (induction bs arbitrary: n) auto
  have eq: "draw_annotations cv2 now frame (map int_box boxes) =
        foldl (\<lambda>f c. cv2 c f) frame
          (PutText (strftime now) (10, int (length frame) - 10)
             FONT_HERSHEY_SIMPLEX (1 / 2) (255, 255, 255) (Some 1) #
           concat (map ?per (enumerate 0 boxes)))" for cv2 frame
    unfolding draw_annotations_calls enumerate_map
    by (simp add: int_box_def py_int_of_int split_def comp_def)
  show ?thesis
    using eq labels [of 0 boxes] len [of 0 boxes] by auto
qed

lemma foldl_shape:
  "\<forall>c f. shape (cv2 c f) = shape f \<Longrightarrow> shape (foldl (\<lambda>f c. cv2 c f) frame calls) = shape frame"
  by (induction calls arbitrary: frame) auto

lemma shape_map_map: "shape (map (map g) f) = shape f"
  by (cases f) (simp_all add: shape_def)

text \<open>
  C4. Whatever the frame and the list of boxes, the empty list included,
  \<open>draw_annotations\<close> first draws the timestamp at \<open>(10, H - 10)\<close>, where H is the height of
  the frame, and every further call draws on the frame so obtained; with drawing
  primitives that keep the shape of the image, as those of the library do, the frame
  returned has the shape of the frame given. The boxes are read, never written.
\<close>

theorem draw_annotations_shape:
  assumes "\<forall>c f. shape (cv2 c f) = shape f"
  shows "shape (draw_annotations cv2 now frame boxes) = shape frame
   \<and> draw_annotations cv2 now frame [] =
       cv2 (PutText (strftime now) (10, int (fst (shape frame)) - 10)
              FONT_HERSHEY_SIMPLEX (1 / 2) (255, 255, 255) (Some 1)) frame
   \<and> (\<exists>calls. draw_annotations cv2 now frame boxes =
        foldl (\<lambda>f c. cv2 c f)
          (cv2 (PutText (strftime now) (10, int (fst (shape frame)) - 10)
                  FONT_HERSHEY_SIMPLEX (1 / 2) (255, 255, 255) (Some 1)) frame) calls)"
proof (intro conjI)
  show "shape (draw_annotations cv2 now frame boxes) = shape frame"
    unfolding draw_annotations_calls by (rule foldl_shape [OF assms])
  show "draw_annotations cv2 now frame [] =
       cv2 (PutText (strftime now) (10, int (fst (shape frame)) - 10)
              FONT_HERSHEY_SIMPLEX (1 / 2) (255, 255, 255) (Some 1)) frame"
    by (simp add: draw_annotations_def)
  show "\<exists>calls. draw_annotations cv2 now frame boxes =
        foldl (\<lambda>f c. cv2 c f)
          (cv2 (PutText (strftime now) (10, int (fst (shape frame)) - 10)
                  FONT_HERSHEY_SIMPLEX (1 / 2) (255, 255, 255) (Some 1)) frame) calls"
    unfolding draw_annotations_calls by (auto simp: shape_def)
qed

theorem draw_annotations_shape_witness:
  "(\<forall>c f. shape ((\<lambda>c. map (map (\<lambda>p. case c of Rectangle r col t \<Rightarrow> (0, 255, 0) | _ \<Rightarrow> p))) c f) = shape f)
   \<and> shape (draw_annotations (\<lambda>c. map (map (\<lambda>p. case c of Rectangle r col t \<Rightarrow> (0, 255, 0) | _ \<Rightarrow> p)))
        \<lparr>dt_year = 2024, dt_month = 3, dt_day = 9, dt_hour = 17, dt_minute = 5, dt_second = 42\<rparr>
        [[(1, 2, 3), (4, 5, 6)]] [(0, 0, 1, 1)]) = (1, 2)"
  using draw_annotations_shape [of "\<lambda>c. map (map (\<lambda>p. case c of Rectangle r col t \<Rightarrow> (0, 255, 0) | _ \<Rightarrow> p))"
        "\<lparr>dt_year = 2024, dt_month = 3, dt_day = 9, dt_hour = 17, dt_minute = 5, dt_second = 42\<rparr>"
        "[[(1, 2, 3), (4, 5, 6)]]" "[(0, 0, 1, 1)]"]
  by (simp add: shape_map_map) (simp add: shape_def)

lemma py_int_trunc: "py_int q = \<lfloor>sgn q\<rfloor> * \<lfloor>\<bar>q\<bar>\<rfloor>"
proof (cases "0 \<le> q")
  case True
  then show ?thesis
    by (cases "q = 0") (simp_all add: py_int_def sgn_if)
next
  case False
  have "\<lfloor>- 1 :: rat\<rfloor> = - 1"
    using floor_of_int [of "- 1", where ?'a = rat] by simp
  with False show ?thesis
    by (simp add: py_int_def sgn_if ceiling_def)
qed

lemma py_int_examples:
  "py_int (7 / 2) = 3" "py_int (- (7 / 2)) = - 3" "py_int (21 / 2) = 10" "py_int 4 = 4"
  "py_int (39 / 10) = 3"
  by code_simp+

text \<open>
  C10. The boxes given to \<open>draw_annotations\<close> need not hold integers: each of the four
  coordinates goes through \<open>int()\<close>, which truncates toward zero (the sign of the number
  times the floor of its magnitude, and the identity on integers), and the rectangle and
  the label are drawn with the truncated coordinates, so \<open>draw_bbox\<close> always gets four
  integers.
\<close>

theorem draw_annotations_truncates:
  "draw_annotations cv2 now frame boxes =
     foldl (\<lambda>f c. cv2 c f) frame
       (PutText (strftime now) (10, int (length frame) - 10)
          FONT_HERSHEY_SIMPLEX (1 / 2) (255, 255, 255) (Some 1) #
        concat (map (\<lambda>(k, (a, b, c, d)).
          [Rectangle (py_int a, py_int b, py_int c, py_int d) (0, 255, 0) 2,
           PutText (''Player'' @ str_int (int k + 1)) (py_int a, py_int b)
             FONT_HERSHEY_SIMPLEX (1 / 2) (0, 255, 0) None]) (enumerate 0 boxes)))
   \<and> py_int q = \<lfloor>sgn q\<rfloor> * \<lfloor>\<bar>q\<bar>\<rfloor>
   \<and> py_int (of_int n) = n
   \<and> py_int (7 / 2) = 3 \<and> py_int (- (7 / 2)) = - 3
   \<and> draw_boxes cv2 0 [(21 / 2, - (7 / 2), 4, 39 / 10)] frame =
       draw_bbox cv2 frame 1 (10, - 3, 4, 3)"
  by (simp add: draw_annotations_calls py_int_trunc [symmetric] py_int_of_int py_int_examples)

section \<open>Properties of the colour detector\<close>

lemma aspect_ok_eq: "aspect_ok w h = (if h = 0 then Inl ZeroDivisionError else Inr True)"
proof (cases "h = 0")
  case True
  then show ?thesis by (simp add: aspect_ok_def py_truediv_def)
next
  case False
  have "(8 / 10 :: rat) \<le> r \<or> r \<le> 12 / 10" for r :: rat
    by linarith
  with False show ?thesis
    by (auto simp: aspect_ok_def py_truediv_def)
qed

lemma select_boxes_eq:
  "select_boxes cv mn mx cs acc =
     (if \<exists>c\<in>set cs. of_int mn \<le> contourArea cv c \<and> contourArea cv c \<le> of_int mx \<and>
                     snd (snd (snd (boundingRect cv c))) = 0
      then Inl ZeroDivisionError
      else Inr (acc @ map (boundingRect cv)
             (filter (\<lambda>c. of_int mn \<le> contourArea cv c \<and> contourArea cv c \<le> of_int mx) cs)))"
proof (induction cs arbitrary: acc)
  case Nil
  show ?case by simp
next
  case (Cons c cs)
  obtain x y w h where br: "boundingRect cv c = (x, y, w, h)"
    by (cases "boundingRect cv c") auto
  show ?case
  proof (cases "of_int mn \<le> contourArea cv c \<and> contourArea cv c \<le> of_int mx")
    case False
    then show ?thesis
      by (auto simp: Cons.IH Let_def)
  next
    case True
    show ?thesis
    proof (cases "h = 0")
      case True
      with \<open>of_int mn \<le> contourArea cv c \<and> contourArea cv c \<le> of_int mx\<close> show ?thesis
        by (simp add: br aspect_ok_eq Let_def)
    next
      case False
      with \<open>of_int mn \<le> contourArea cv c \<and> contourArea cv c \<le> of_int mx\<close> show ?thesis
        by (auto simp: Cons.IH br aspect_ok_eq Let_def)
    qed
  qed
qed

lemma concat_Nil_lengths: "(concat xs = []) = (\<forall>n\<in>set (map length xs). n = 0)"
  by (induction xs) auto

lemma lengths_inRange: "map length (cv2_inRange src lo hi) = map length src"
  by (simp add: cv2_inRange_def)

lemma lengths_dilate: "map length (cv2_dilate src k) = map length src"
  by (rule nth_equalityI) (simp_all add: cv2_dilate_def)

lemma lengths_bitwise_and:
  "map length msk = map length src \<Longrightarrow> map length (cv2_bitwise_and src src msk) = map length src"
proof (induction src arbitrary: msk)
  case Nil
  then show ?case by (simp add: cv2_bitwise_and_def)
next
  case (Cons row src)
  then obtain mrow msk' where m: "msk = mrow # msk'"
    by (cases msk) auto
  with Cons.prems have "length mrow = length row" "map length msk' = map length src"
    by auto
  with Cons.IH [of msk'] show ?case
    by (simp add: cv2_bitwise_and_def m)
qed

lemma lengths_img_masked: "map length (img_masked cv frame lo hi) = map length frame"
  unfolding img_masked_def green_mask_dilated_def green_mask_def hsv_frame_def
  by (rule lengths_bitwise_and) (simp add: lengths_dilate lengths_inRange)

lemma img_masked_nonempty:
  assumes "concat frame \<noteq> []"
  shows "concat (img_masked cv frame lo hi) \<noteq> []"
  using assms unfolding concat_Nil_lengths lengths_img_masked .

lemma detect_colour_stages:
  assumes "concat frame \<noteq> []"
  shows "detect_colour cv w frame lo hi mn mx dump =
     (case select_boxes cv mn mx (findContours cv (res_gray cv frame lo hi)) [] of
        Inl e \<Rightarrow> (Inl e, if dump then dump_files cv frame lo hi w else w)
      | Inr bboxes \<Rightarrow>
          (Inr bboxes, snd (log_detected (if dump then dump_files cv frame lo hi w else w) bboxes)))"
proof -
  have h1: "cv2_cvtColor (COLOR_BGR2HSV cv) frame = Inr (map (map (COLOR_BGR2HSV cv)) frame)"
    using assms by (simp only: cv2_cvtColor_def if_False)
  have "concat (img_masked cv frame lo hi) \<noteq> []"
    by (rule img_masked_nonempty [OF assms])
  then have h2: "cv2_cvtColor (COLOR_BGR2GRAY cv) (img_masked cv frame lo hi) =
      Inr (res_gray cv frame lo hi)"
    by (simp only: cv2_cvtColor_def res_gray_def if_False)
  note stages = img_masked_def green_mask_dilated_def green_mask_def hsv_frame_def
  show ?thesis
    apply (simp only: detect_colour_def h1 sum.case Let_def)
    apply (simp only: h2 [unfolded stages] sum.case)
    apply (cases dump)
     apply (simp_all only: if_True if_False dump_files_def res_gray_def stages)
    done
qed

lemma detect_colour_empty:
  "concat frame = [] \<Longrightarrow> detect_colour cv w frame lo hi mn mx dump = (Inl InvalidFrame, w)"
  by (simp add: detect_colour_def cv2_cvtColor_def)

lemma fst_detect_colour:
  "fst (detect_colour cv w frame lo hi mn mx dump) =
     (if concat frame = [] then Inl InvalidFrame
      else select_boxes cv mn mx (findContours cv (res_gray cv frame lo hi)) [])"
  by (simp add: detect_colour_empty detect_colour_stages split: sum.splits)

text \<open>
  C1. On a frame that has pixels, \<open>detect_colour\<close> returns, in the order in which the
  contours were found, the bounding rectangle of exactly those contours whose area lies
  between \<open>min_contour\<close> and \<open>max_contour\<close>, both included. The test on the ratio
  \<open>w / h\<close> that follows lets every box through: it holds for every ratio, and it can only
  end the call, by a division by zero, when the height of such a rectangle is 0.
\<close>

theorem detect_colour_area_filter:
  assumes "concat frame \<noteq> []"
  shows "fst (detect_colour cv w frame min_hsv max_hsv min_contour max_contour dump) =
     (if \<exists>c\<in>set (findContours cv (res_gray cv frame min_hsv max_hsv)).
           of_int min_contour \<le> contourArea cv c \<and> contourArea cv c \<le> of_int max_contour \<and>
           snd (snd (snd (boundingRect cv c))) = 0
      then Inl ZeroDivisionError
      else Inr (map (boundingRect cv)
             (filter (\<lambda>c. of_int min_contour \<le> contourArea cv c \<and>
                          contourArea cv c \<le> of_int max_contour)
                (findContours cv (res_gray cv frame min_hsv max_hsv)))))
   \<and> aspect_ok bw bh = (if bh = 0 then Inl ZeroDivisionError else Inr True)"
  using assms by (simp only: fst_detect_colour select_boxes_eq aspect_ok_eq if_False append_Nil simp_thms)

lemma toy_res_gray:
  "res_gray toy_cv [[(60, 200, 200)]] MIN_DETECT_HSV MAX_DETECT_HSV = [[200]]"
  by code_simp

lemma toy_contours:
  "findContours toy_cv [[200]] = [[(0, 0), (1, 0), (1, 1), (0, 1)], [(0, 0), (3, 0), (3, 3)]]"
  by (simp add: toy_cv_def)

lemma toy_rects:
  "boundingRect toy_cv [(0, 0), (1, 0), (1, 1), (0, 1)] = (0, 0, 2, 2)"
  "boundingRect toy_cv [(0, 0), (3, 0), (3, 3)] = (0, 0, 4, 4)"
  by (simp_all add: toy_cv_def boundingRect_points_def)

lemma toy_areas:
  "contourArea toy_cv [(0, 0), (1, 0), (1, 1), (0, 1)] = 150"
  "contourArea toy_cv [(0, 0), (3, 0), (3, 3)] = 5000"
  by (simp_all add: toy_cv_def)

theorem detect_colour_area_filter_witness:
  "concat [[(60, 200, 200) :: pixel]] \<noteq> []
   \<and> fst (detect_colour toy_cv empty_world [[(60, 200, 200)]] MIN_DETECT_HSV MAX_DETECT_HSV
          MIN_DETECT_CONTOUR MAX_DETECT_CONTOUR False) = Inr [(0, 0, 2, 2)]
   \<and> aspect_ok 2 2 = Inr True"
proof -
  have h: "concat [[(60, 200, 200) :: pixel]] \<noteq> []"
    by simp
  show ?thesis
    using detect_colour_area_filter [OF h, of toy_cv empty_world MIN_DETECT_HSV MAX_DETECT_HSV
        MIN_DETECT_CONTOUR MAX_DETECT_CONTOUR False 2 2]
    by (simp add: toy_res_gray toy_contours toy_rects toy_areas MIN_DETECT_CONTOUR_def
        MAX_DETECT_CONTOUR_def)
qed


text \<open>
  C5. What \<open>detect_colour\<close> returns is a function of the frame and the parameters: it
  does not depend on the log or on the files that are there, and a second call on the
  world that the first one leaves behind returns what the first one returned.
\<close>

theorem detect_colour_deterministic:
  "fst (detect_colour cv w frame min_hsv max_hsv min_contour max_contour dump) =
     fst (detect_colour cv w' frame min_hsv max_hsv min_contour max_contour dump)
   \<and> fst (detect_colour cv
            (snd (detect_colour cv w frame min_hsv max_hsv min_contour max_contour dump))
            frame min_hsv max_hsv min_contour max_contour dump) =
     fst (detect_colour cv w frame min_hsv max_hsv min_contour max_contour dump)"
  by (simp only: fst_detect_colour simp_thms)

lemma fold_max_zero: "\<forall>v\<in>set vs. v = (0 :: 8 word) \<Longrightarrow> fold max vs 0 = 0"
  by (induction vs) auto

lemma covered_zero:
  "v \<in> set (covered (map (map (\<lambda>_. 0)) f) k y x) \<Longrightarrow> v = 0"
proof -
  have zero: "map (map (\<lambda>_. 0 :: 8 word)) f ! nat a ! nat b = 0"
    if "0 \<le> a" "a < int (length (map (map (\<lambda>_. 0 :: 8 word)) f))"
      "0 \<le> b" "b < int (length (map (map (\<lambda>_. 0 :: 8 word)) f ! nat a))"
    for a b
  proof -
    from that have i: "nat a < length f"
      by simp
    with that have "nat b < length (f ! nat a)"
      by simp
    with i show ?thesis
      by simp
  qed
  assume "v \<in> set (covered (map (map (\<lambda>_. 0)) f) k y x)"
  then show ?thesis
    unfolding covered_def Let_def
    apply (auto split: if_splits simp del: nth_map length_map)
    apply (rule zero; simp del: nth_map length_map)
    done
qed

lemma dilate_zero: "cv2_dilate (map (map (\<lambda>_. 0)) f) k = map (map (\<lambda>_. 0)) f"
proof (rule nth_equalityI)
  show "length (cv2_dilate (map (map (\<lambda>_. 0)) f) k) = length (map (map (\<lambda>_. 0 :: 8 word)) f)"
    by (simp add: cv2_dilate_def)
next
  fix y
  assume "y < length (cv2_dilate (map (map (\<lambda>_. 0)) f) k)"
  then have y: "y < length f"
    by (simp add: cv2_dilate_def)
  have px: "fold max (covered (map (map (\<lambda>_. 0)) f) k y x) 0 = 0" for x
    by (rule fold_max_zero) (auto dest: covered_zero)
  from y show "cv2_dilate (map (map (\<lambda>_. 0)) f) k ! y = map (map (\<lambda>_. 0)) f ! y"
    by (simp add: cv2_dilate_def px) (rule nth_equalityI, simp_all)
qed

lemma and_row_zero:
  "map2 (\<lambda>((b1, g1, r1), (b2, g2, r2)) m.
           if m \<noteq> 0 then (b1 AND b2, g1 AND g2, r1 AND r2) else (0, 0, 0))
     (zip row row) (map (\<lambda>_. 0 :: 8 word) row) = map (\<lambda>_. (0, 0, 0)) (row :: pixel list)"
  by (induction row) auto

lemma bitwise_and_zero:
  "cv2_bitwise_and f f (map (map (\<lambda>_. 0)) f) = map (map (\<lambda>_. (0, 0, 0))) f"
  by (induction f) (simp_all add: cv2_bitwise_and_def and_row_zero)

lemma green_mask_zero:
  assumes "\<forall>row\<in>set frame. \<forall>p\<in>set row. \<not> in_bounds (COLOR_BGR2HSV cv p) lo hi"
  shows "green_mask cv frame lo hi = map (map (\<lambda>_. 0)) frame"
  using assms by (simp add: green_mask_def hsv_frame_def cv2_inRange_def)

lemma res_gray_zero:
  assumes "\<forall>row\<in>set frame. \<forall>p\<in>set row. \<not> in_bounds (COLOR_BGR2HSV cv p) lo hi"
    and "COLOR_BGR2GRAY cv (0, 0, 0) = 0"
  shows "res_gray cv frame lo hi = map (map (\<lambda>_. 0)) frame"
  using assms(2)
  by (simp add: res_gray_def img_masked_def green_mask_dilated_def green_mask_zero [OF assms(1)]
      dilate_zero bitwise_and_zero comp_def)

text \<open>
  C6. When no pixel of the frame has its HSV value within \<open>[min_hsv, max_hsv]\<close>, the
  mask is black before and after the dilation, so is the masked frame, and
  \<open>detect_colour\<close> returns the empty list. Two facts about the library are used: black
  is converted to the grey value 0, and no contour is found in a black image.
\<close>

theorem detect_colour_nothing_in_range:
  assumes "concat frame \<noteq> []"
    and "\<forall>row\<in>set frame. \<forall>p\<in>set row. \<not> in_bounds (COLOR_BGR2HSV cv p) min_hsv max_hsv"
    and "COLOR_BGR2GRAY cv (0, 0, 0) = 0"
    and "findContours cv (map (map (\<lambda>_. 0)) frame) = []"
  shows "fst (detect_colour cv w frame min_hsv max_hsv min_contour max_contour dump) = Inr []
   \<and> green_mask_dilated cv frame min_hsv max_hsv = map (map (\<lambda>_. 0)) frame"
  using assms(1,4)
  by (simp add: fst_detect_colour res_gray_zero [OF assms(2,3)] green_mask_dilated_def
      green_mask_zero [OF assms(2)] dilate_zero)

theorem detect_colour_nothing_in_range_witness:
  "concat [[(10, 20, 30) :: pixel, (90, 200, 200)]] \<noteq> []
   \<and> \<not> in_bounds (COLOR_BGR2HSV toy_cv (10, 20, 30)) MIN_DETECT_HSV MAX_DETECT_HSV
   \<and> \<not> in_bounds (COLOR_BGR2HSV toy_cv (90, 200, 200)) MIN_DETECT_HSV MAX_DETECT_HSV
   \<and> COLOR_BGR2GRAY toy_cv (0, 0, 0) = 0
   \<and> findContours toy_cv (map (map (\<lambda>_. 0)) [[(10, 20, 30) :: pixel, (90, 200, 200)]]) = []
   \<and> fst (detect_colour toy_cv empty_world [[(10, 20, 30), (90, 200, 200)]]
          MIN_DETECT_HSV MAX_DETECT_HSV MIN_DETECT_CONTOUR MAX_DETECT_CONTOUR True) = Inr []"
proof -
  have h1: "concat [[(10, 20, 30) :: pixel, (90, 200, 200)]] \<noteq> []"
    by simp
  have h2: "\<forall>row\<in>set [[(10, 20, 30), (90, 200, 200)]]. \<forall>p\<in>set row.
        \<not> in_bounds (COLOR_BGR2HSV toy_cv p) MIN_DETECT_HSV MAX_DETECT_HSV"
    by (simp add: toy_cv_def in_bounds_def MIN_DETECT_HSV_def MAX_DETECT_HSV_def)
  have h3: "COLOR_BGR2GRAY toy_cv (0, 0, 0) = 0"
    by (simp add: toy_cv_def)
  have h4: "findContours toy_cv (map (map (\<lambda>_. 0)) [[(10, 20, 30) :: pixel, (90, 200, 200)]]) = []"
    by (simp add: toy_cv_def)
  show ?thesis
    using detect_colour_nothing_in_range [OF h1 h2 h3 h4] h1 h2 h3 h4 by simp
qed

lemma log_detected_keeps_files:
  "disk (snd (log_detected w boxes)) = disk w" "written (snd (log_detected w boxes)) = written w"
  by (simp_all add: log_detected_eq)

lemma dump_files_world:
  "written (dump_files cv frame lo hi w) =
     written w @ [''hsv_frame.jpg'', ''green_mask.jpg'', ''green_mask_dilated.jpg'', ''img_masked.jpg'']"
  "disk (dump_files cv frame lo hi w) =
     (disk w)(''hsv_frame.jpg'' \<mapsto> Colour (hsv_frame cv frame),
              ''green_mask.jpg'' \<mapsto> Gray (green_mask cv frame lo hi),
              ''green_mask_dilated.jpg'' \<mapsto> Gray (green_mask_dilated cv frame lo hi),
              ''img_masked.jpg'' \<mapsto> Colour (img_masked cv frame lo hi))"
  "logfile (dump_files cv frame lo hi w) = logfile w"
  by (simp_all add: dump_files_def cv2_imwrite_def)

lemma snd_detect_colour_files:
  assumes "concat frame \<noteq> []"
  shows "written (snd (detect_colour cv w frame lo hi mn mx dump)) =
           written (if dump then dump_files cv frame lo hi w else w)"
    and "disk (snd (detect_colour cv w frame lo hi mn mx dump)) =
           disk (if dump then dump_files cv frame lo hi w else w)"
  by (simp_all add: detect_colour_stages [OF assms] log_detected_keeps_files split: sum.splits)

text \<open>
  C8. On a frame that has pixels, \<open>detect_colour\<close> calls \<open>cv2.imwrite\<close> exactly when
  \<open>dump\<close> is true, and then four times: \<open>hsv_frame.jpg\<close> receives the HSV frame,
  \<open>green_mask.jpg\<close> the mask before the dilation, \<open>green_mask_dilated.jpg\<close> the mask
  after it and \<open>img_masked.jpg\<close> the masked colour frame, in this order. A file of the
  same name that was there is replaced, every other file is left as it was, and the
  boxes returned are the same with and without \<open>dump\<close>.
\<close>

theorem detect_colour_dump:
  assumes "concat frame \<noteq> []"
  shows "written (snd (detect_colour cv w frame min_hsv max_hsv min_contour max_contour dump)) =
     written w @
       (if dump
        then [''hsv_frame.jpg'', ''green_mask.jpg'', ''green_mask_dilated.jpg'', ''img_masked.jpg'']
        else [])
   \<and> disk (snd (detect_colour cv w frame min_hsv max_hsv min_contour max_contour dump)) =
       (if dump
        then (disk w)(''hsv_frame.jpg'' \<mapsto> Colour (hsv_frame cv frame),
               ''green_mask.jpg'' \<mapsto> Gray (green_mask cv frame min_hsv max_hsv),
               ''green_mask_dilated.jpg'' \<mapsto> Gray (green_mask_dilated cv frame min_hsv max_hsv),
               ''img_masked.jpg'' \<mapsto> Colour (img_masked cv frame min_hsv max_hsv))
        else disk w)
   \<and> (written (snd (detect_colour cv w frame min_hsv max_hsv min_contour max_contour dump))
        \<noteq> written w) = dump
   \<and> fst (detect_colour cv w frame min_hsv max_hsv min_contour max_contour True) =
     fst (detect_colour cv w frame min_hsv max_hsv min_contour max_contour False)"
  by (simp add: snd_detect_colour_files [OF assms] dump_files_world fst_detect_colour)

theorem detect_colour_dump_witness:
  "concat [[(60, 200, 200) :: pixel]] \<noteq> []
   \<and> written (snd (detect_colour toy_cv empty_world [[(60, 200, 200)]] MIN_DETECT_HSV
        MAX_DETECT_HSV MIN_DETECT_CONTOUR MAX_DETECT_CONTOUR True)) =
       [''hsv_frame.jpg'', ''green_mask.jpg'', ''green_mask_dilated.jpg'', ''img_masked.jpg'']
   \<and> written (snd (detect_colour toy_cv empty_world [[(60, 200, 200)]] MIN_DETECT_HSV
        MAX_DETECT_HSV MIN_DETECT_CONTOUR MAX_DETECT_CONTOUR False)) = []"
proof -
  have h: "concat [[(60, 200, 200) :: pixel]] \<noteq> []"
    by simp
  show ?thesis
    using detect_colour_dump [OF h, of toy_cv empty_world MIN_DETECT_HSV MAX_DETECT_HSV
        MIN_DETECT_CONTOUR MAX_DETECT_CONTOUR True]
      detect_colour_dump [OF h, of toy_cv empty_world MIN_DETECT_HSV MAX_DETECT_HSV
        MIN_DETECT_CONTOUR MAX_DETECT_CONTOUR False]
    by (simp add: empty_world_def)
qed

lemma fold_min_le: "fold min xs (a :: int) \<le> a"
proof (induction xs arbitrary: a)
  case Nil
  show ?case by simp
next
  case (Cons x xs)
  have "fold min xs (min x a) \<le> min x a"
    by (rule Cons.IH)
  then show ?case by simp
qed

lemma le_fold_max: "(a :: int) \<le> fold max xs a"
proof (induction xs arbitrary: a)
  case Nil
  show ?case by simp
next
  case (Cons x xs)
  have "max x a \<le> fold max xs (max x a)"
    by (rule Cons.IH)
  then show ?case by simp
qed

lemma boundingRect_points_positive:
  assumes "pts \<noteq> []"
  shows "case boundingRect_points pts of (x, y, w, h) \<Rightarrow> 1 \<le> w \<and> 1 \<le> h"
proof -
  from assms obtain p ps where pts: "pts = p # ps"
    by (cases pts) auto
  have "fold min (map fst ps) (fst p) \<le> fold max (map fst ps) (fst p)"
    using fold_min_le [of "map fst ps" "fst p"] le_fold_max [of "fst p" "map fst ps"] by linarith
  moreover have "fold min (map snd ps) (snd p) \<le> fold max (map snd ps) (snd p)"
    using fold_min_le [of "map snd ps" "snd p"] le_fold_max [of "snd p" "map snd ps"] by linarith
  ultimately show ?thesis
    by (simp add: pts boundingRect_points_def Let_def)
qed

text \<open>
  C9. When \<open>cv2.boundingRect\<close> is the minimal enclosing rectangle of the points of a
  contour and every contour that \<open>cv2.findContours\<close> returns has at least one point, the
  rectangle of every contour has a width and a height of at least 1, the test on \<open>w / h\<close>
  succeeds on it, and \<open>detect_colour\<close> does not end in a division by zero.
\<close>

theorem detect_colour_no_zero_division:
  assumes "boundingRect cv = boundingRect_points"
    and "\<forall>c\<in>set (findContours cv (res_gray cv frame min_hsv max_hsv)). c \<noteq> []"
  shows "fst (detect_colour cv w frame min_hsv max_hsv min_contour max_contour dump)
           \<noteq> Inl ZeroDivisionError
   \<and> (\<forall>c\<in>set (findContours cv (res_gray cv frame min_hsv max_hsv)).
         case boundingRect cv c of (x, y, bw, bh) \<Rightarrow>
           1 \<le> bw \<and> 1 \<le> bh \<and> aspect_ok bw bh = Inr True)"
proof -
  have pos: "case boundingRect cv c of (x, y, bw, bh) \<Rightarrow> 1 \<le> bw \<and> 1 \<le> bh \<and> aspect_ok bw bh = Inr True"
    if "c \<in> set (findContours cv (res_gray cv frame min_hsv max_hsv))" for c
  proof -
    from that assms(2) have "c \<noteq> []"
      by blast
    from boundingRect_points_positive [OF this] show ?thesis
      by (auto simp: assms(1) aspect_ok_eq)
  qed
  then have "\<not> (\<exists>c\<in>set (findContours cv (res_gray cv frame min_hsv max_hsv)).
      of_int min_contour \<le> contourArea cv c \<and> contourArea cv c \<le> of_int max_contour \<and>
      snd (snd (snd (boundingRect cv c))) = 0)"
    by fastforce
  then have "fst (detect_colour cv w frame min_hsv max_hsv min_contour max_contour dump)
      \<noteq> Inl ZeroDivisionError"
    by (simp only: fst_detect_colour select_boxes_eq if_False split: if_splits) simp
  moreover have "\<forall>c\<in>set (findContours cv (res_gray cv frame min_hsv max_hsv)).
      case boundingRect cv c of (x, y, bw, bh) \<Rightarrow>
        1 \<le> bw \<and> 1 \<le> bh \<and> aspect_ok bw bh = Inr True"
    by (rule ballI) (rule pos)
  ultimately show ?thesis
    by (rule conjI)
qed

theorem detect_colour_no_zero_division_witness:
  "boundingRect toy_cv = boundingRect_points
   \<and> findContours toy_cv (res_gray toy_cv [[(60, 200, 200)]] MIN_DETECT_HSV MAX_DETECT_HSV) =
       [[(0, 0), (1, 0), (1, 1), (0, 1)], [(0, 0), (3, 0), (3, 3)]]
   \<and> fst (detect_colour toy_cv empty_world [[(60, 200, 200)]] MIN_DETECT_HSV MAX_DETECT_HSV
          MIN_DETECT_CONTOUR MAX_DETECT_CONTOUR False) \<noteq> Inl ZeroDivisionError
   \<and> boundingRect toy_cv [(0, 0), (3, 0), (3, 3)] = (0, 0, 4, 4)
   \<and> aspect_ok 4 4 = Inr True"
proof -
  have cs: "findContours toy_cv (res_gray toy_cv [[(60, 200, 200)]] MIN_DETECT_HSV MAX_DETECT_HSV) =
       [[(0, 0), (1, 0), (1, 1), (0, 1)], [(0, 0), (3, 0), (3, 3)]]"
    by (simp add: toy_res_gray toy_contours)
  have h1: "boundingRect toy_cv = boundingRect_points"
    by (simp add: toy_cv_def)
  have h2: "\<forall>c\<in>set (findContours toy_cv
          (res_gray toy_cv [[(60, 200, 200)]] MIN_DETECT_HSV MAX_DETECT_HSV)). c \<noteq> []"
    by (simp add: toy_res_gray toy_contours)
  have main: "fst (detect_colour toy_cv empty_world [[(60, 200, 200)]] MIN_DETECT_HSV MAX_DETECT_HSV
          MIN_DETECT_CONTOUR MAX_DETECT_CONTOUR False) \<noteq> Inl ZeroDivisionError
      \<and> aspect_ok 4 4 = Inr True"
    using detect_colour_no_zero_division [OF h1 h2, of empty_world MIN_DETECT_CONTOUR
        MAX_DETECT_CONTOUR False] cs
    by (simp add: toy_rects)
  from h1 cs main toy_rects(2) show ?thesis
    by blast
qed

section \<open>Properties of the blob detector\<close>

lemma not_u8: "NOT (v :: 8 word) = 255 - v"
  by (simp add: not_eq_complement)

lemma blob_boxes_eq:
  "blob_boxes rect_of_points blobs = (if blobs = [] then Inr [] else Inl BadArgument)"
  by (cases blobs) (simp_all add: cv2_boundingRect_def)

lemma toy_detect_white:
  "toy_detect params (cv2_bitwise_not [[(255, 255, 255)]]) = [\<lparr>pt = (0, 0), size = 1\<rparr>]"
  "toy_detect params (cv2_bitwise_not [[(0, 0, 0)]]) = []"
  by (simp_all add: toy_detect_def cv2_bitwise_not_def)

text \<open>
  C7. \<open>detect_blobs\<close> hands to the detector the frame with every channel value \<open>v\<close>
  replaced by \<open>255 - v\<close>, and the parameters with the circularity filter on at the float
  nearest to the Python number \<open>0.9\<close>, the area filter on between \<open>min_area\<close> and
  \<open>max_area\<close>, and the colour filter on with blob colour 0 (dark). Each keypoint that the
  detector returns is then handed as it is to \<open>cv2.boundingRect\<close>, which takes an array
  of points and not a keypoint: when nothing is detected the result is the empty list,
  and as soon as one blob is detected the call ends in the library's error, so that no
  rectangle is returned for any keypoint. The log and the files are left as they were.
  The last lines run the function on a one-pixel white frame, whose inverse holds a dark
  blob, and on a black one.
\<close>

theorem detect_blobs_rejects_keypoints:
  "fst (detect_blobs SimpleBlobDetector_Params to_float detect rect_of_points w frame
          min_area max_area) =
     (if detect
           (SimpleBlobDetector_Params
              \<lparr>filterByCircularity := True, minCircularity := to_float py_float_0_9,
               filterByArea := True, minArea := to_float (of_int min_area),
               maxArea := to_float (of_int max_area), filterByColor := True, blobColor := 0\<rparr>)
           (map (map (\<lambda>(b, g, r). (255 - b, 255 - g, 255 - r))) frame) = []
      then Inr [] else Inl BadArgument)
   \<and> snd (detect_blobs SimpleBlobDetector_Params to_float detect rect_of_points w frame
          min_area max_area) = w
   \<and> detect_blobs toy_params id toy_detect rect_of_points empty_world [[(255, 255, 255)]]
        MIN_DETECT_CONTOUR MAX_DETECT_CONTOUR = (Inl BadArgument, empty_world)
   \<and> detect_blobs toy_params id toy_detect rect_of_points empty_world [[(0, 0, 0)]]
        MIN_DETECT_CONTOUR MAX_DETECT_CONTOUR = (Inr [], empty_world)
   \<and> cv2_boundingRect rect_of_points (Ndarray pts) = Inr (rect_of_points pts)
   \<and> cv2_boundingRect rect_of_points (KeyPoint blob) = Inl BadArgument"
  by (simp add: detect_blobs_def blob_boxes_eq toy_detect_white cv2_boundingRect_def Let_def)
    (simp add: cv2_bitwise_not_def not_u8)

end
